theory Spec2Isabelle
  imports Main "HOL-Library.Word"
begin

section \<open>Values shared by the modules\<close>

text \<open>
  Python \<open>str\<close> and \<open>bytes\<close> are both modelled as \<open>string\<close>; on this representation
  \<open>encode('utf-8')\<close> and \<open>decode('utf-8')\<close> are the identity. Console output
  (\<open>print\<close>) is not part of the model. An exception is a value of \<open>exn\<close>, carrying
  the text of \<open>str(e)\<close>; a function that can raise returns \<open>exn + 'a\<close>, and the stores
  are as they were when it raises.
\<close>

datatype exn =
  ValueError string
| TypeError string
| OverflowError string
| IntegrityError string
| Exception string

text \<open>
  A naive UTC \<open>datetime\<close> is the number of microseconds on its clock; the reading of
  \<open>datetime.datetime.utcnow()\<close> is an argument named \<open>utcnow\<close>. The upper end of
  Python's datetime range (year 9999) is outside the model.
\<close>

type_synonym datetime = int

definition timedelta_hours :: "int \<Rightarrow> int" where
  "timedelta_hours h = h * 3600000000"

text \<open>\<open>bytes.hex()\<close>: two lower-case digits for each byte.\<close>

definition hex_digit :: "nat \<Rightarrow> char" where
  "hex_digit n = ''0123456789abcdef'' ! (n mod 16)"

definition hex :: "8 word list \<Rightarrow> string" where
  "hex bs = concat (map (\<lambda>b. [hex_digit (unat b div 16), hex_digit (unat b mod 16)]) bs)"

section \<open>db/models.py\<close>

text \<open>
  The two mapped classes. The primary key \<open>id\<close> is called \<open>user_pk\<close> and
  \<open>session_pk\<close> here.
\<close>

record user_row =
  user_pk :: int
  username :: string
  email :: string
  password_hash :: string

record session_row =
  session_pk :: int
  session_id :: string
  user_id :: int
  expiry_timestamp :: datetime

text \<open>
  The SQLAlchemy handle \<open>db\<close> stands for the two tables behind it, each a list of rows in
  insertion order. \<open>foreign_keys\<close> says whether the backend enforces the
  \<open>ForeignKey('users.id')\<close> declaration (SQLite does not unless asked to).
\<close>

record database =
  users :: "user_row list"
  sessions :: "session_row list"
  foreign_keys :: bool

definition next_pk :: "int list \<Rightarrow> int" where
  "next_pk ks = fold max ks 0 + 1"

text \<open>
  \<open>db.add(new_user); db.commit(); db.refresh(new_user)\<close>: the row is stored with a
  fresh primary key unless a \<open>unique=True\<close> column of \<open>User\<close> already holds its value.
\<close>

definition add_user :: "string \<Rightarrow> string \<Rightarrow> string \<Rightarrow> database \<Rightarrow> exn + (user_row \<times> database)" where
  "add_user name mail pwhash d =
     (if list_ex (\<lambda>r. username r = name) (users d) then Inl (IntegrityError ''users.username'')
      else if list_ex (\<lambda>r. email r = mail) (users d) then Inl (IntegrityError ''users.email'')
      else
        let new_user = \<lparr>user_pk = next_pk (map user_pk (users d)), username = name,
                         email = mail, password_hash = pwhash\<rparr>
        in Inr (new_user, d\<lparr>users := users d @ [new_user]\<rparr>))"

text \<open>
  An \<open>Integer\<close> column holds a signed 64-bit value (as in SQLite, the backend of the example
  in \<open>models.py\<close>); a Python int outside that range is refused with \<open>OverflowError\<close>
  when the statement is sent.
\<close>

definition in_Integer_range :: "int \<Rightarrow> bool" where
  "in_Integer_range i = (- (2 ^ 63) \<le> i \<and> i < 2 ^ 63)"

text \<open>
  \<open>db.add(new_session); db.commit(); db.refresh(new_session)\<close>: \<open>user_id\<close> is an
  \<open>Integer\<close>, \<open>session_id\<close> is unique, and \<open>user_id\<close> references \<open>users.id\<close> where the
  backend checks it.
\<close>

definition add_session :: "string \<Rightarrow> int \<Rightarrow> datetime \<Rightarrow> database \<Rightarrow> exn + (session_row \<times> database)" where
  "add_session sid uid expiry d =
     (if \<not> in_Integer_range uid then Inl (OverflowError ''sessions.user_id'')
      else if list_ex (\<lambda>r. session_id r = sid) (sessions d)
        then Inl (IntegrityError ''sessions.session_id'')
      else if foreign_keys d \<and> \<not> list_ex (\<lambda>u. user_pk u = uid) (users d)
        then Inl (IntegrityError ''sessions.user_id'')
      else
        let new_session = \<lparr>session_pk = next_pk (map session_pk (sessions d)), session_id = sid,
                            user_id = uid, expiry_timestamp = expiry\<rparr>
        in Inr (new_session, d\<lparr>sessions := sessions d @ [new_session]\<rparr>))"

text \<open>\<open>db.delete(session); db.commit()\<close>: the row goes by its primary key.\<close>

definition delete_row :: "session_row \<Rightarrow> database \<Rightarrow> database" where
  "delete_row session d =
     d\<lparr>sessions := filter (\<lambda>r. session_pk r \<noteq> session_pk session) (sessions d)\<rparr>"

section \<open>app/auth.py\<close>

text \<open>
  The entries of the module-level dictionaries \<open>IN_MEMORY_USERS\<close> (keyed by username) and
  \<open>IN_MEMORY_SESSIONS\<close> (keyed by session id).
\<close>

record user_data =
  data_email :: string
  data_password_hash :: string

record session_data =
  data_user_id :: int
  data_expiry_timestamp :: datetime

record memory =
  IN_MEMORY_USERS :: "string \<rightharpoonup> user_data"
  IN_MEMORY_SESSIONS :: "string \<rightharpoonup> session_data"

text \<open>
  The \<open>bcrypt\<close> package is not part of the repository: its two functions are parameters.
  Each may raise (\<open>ValueError\<close> on a malformed salt or hash, for example). The value of
  \<open>bcrypt.gensalt()\<close>, which is random, is an argument named \<open>salt\<close>.
\<close>

record bcrypt =
  hashpw :: "string \<Rightarrow> string \<Rightarrow> exn + string"
  checkpw :: "string \<Rightarrow> string \<Rightarrow> exn + bool"

definition hash_password :: "bcrypt \<Rightarrow> string \<Rightarrow> string \<Rightarrow> exn + string" where
  "hash_password bc salt password = hashpw bc password salt"

definition verify_password :: "bcrypt \<Rightarrow> string \<Rightarrow> string \<Rightarrow> exn + bool" where
  "verify_password bc plain_password hashed_password = checkpw bc plain_password hashed_password"

text \<open>What the functions hand back: a mapped object on the database path, a dictionary otherwise.\<close>

datatype user_result = UserObject user_row | UserDict user_data

datatype session_result = SessionObject session_row | SessionDict session_data

definition create_user ::
  "bcrypt \<Rightarrow> string \<Rightarrow> string \<Rightarrow> string \<Rightarrow> string \<Rightarrow> database option \<Rightarrow> memory
     \<Rightarrow> exn + (user_result \<times> database option \<times> memory)" where
  "create_user bc salt name mail password db mem =
     (case hash_password bc salt password of
        Inl e \<Rightarrow> Inl e
      | Inr pwhash \<Rightarrow>
          (case db of
             Some d \<Rightarrow>
               (case add_user name mail pwhash d of
                  Inl e \<Rightarrow> Inl e
                | Inr (new_user, d') \<Rightarrow> Inr (UserObject new_user, Some d', mem))
           | None \<Rightarrow>
               let entry = \<lparr>data_email = mail, data_password_hash = pwhash\<rparr>
               in Inr (UserDict entry, None,
                       mem\<lparr>IN_MEMORY_USERS := (IN_MEMORY_USERS mem)(name \<mapsto> entry)\<rparr>)))"

definition authenticate_user ::
  "bcrypt \<Rightarrow> string \<Rightarrow> string \<Rightarrow> database option \<Rightarrow> memory \<Rightarrow> exn + user_result option" where
  "authenticate_user bc name password db mem =
     (case db of
        Some d \<Rightarrow>
          (case find (\<lambda>r. username r = name) (users d) of
             None \<Rightarrow> Inr None
           | Some user \<Rightarrow>
               (case verify_password bc password (password_hash user) of
                  Inl e \<Rightarrow> Inl e
                | Inr ok \<Rightarrow> Inr (if ok then Some (UserObject user) else None)))
      | None \<Rightarrow>
          (case IN_MEMORY_USERS mem name of
             None \<Rightarrow> Inr None
           | Some entry \<Rightarrow>
               (case verify_password bc password (data_password_hash entry) of
                  Inl e \<Rightarrow> Inl e
                | Inr ok \<Rightarrow> Inr (if ok then Some (UserDict entry) else None))))"

text \<open>
  \<open>urandom\<close> is the value of \<open>os.urandom(16)\<close>. The function returns the token together
  with the stores as it leaves them.
\<close>

definition create_session ::
  "int \<Rightarrow> database option \<Rightarrow> 8 word list \<Rightarrow> datetime \<Rightarrow> memory
     \<Rightarrow> exn + (string \<times> database option \<times> memory)" where
  "create_session uid db urandom utcnow mem =
     (let sid = hex urandom;
          expiry = utcnow + timedelta_hours 1
      in case db of
           Some d \<Rightarrow>
             (case add_session sid uid expiry d of
                Inl e \<Rightarrow> Inl e
              | Inr (new_session, d') \<Rightarrow> Inr (session_id new_session, Some d', mem))
         | None \<Rightarrow>
             Inr (sid, None,
                  mem\<lparr>IN_MEMORY_SESSIONS := (IN_MEMORY_SESSIONS mem)
                         (sid \<mapsto> \<lparr>data_user_id = uid, data_expiry_timestamp = expiry\<rparr>)\<rparr>))"

definition get_session ::
  "string \<Rightarrow> database option \<Rightarrow> datetime \<Rightarrow> memory \<Rightarrow> session_result option" where
  "get_session sid db utcnow mem =
     (case db of
        Some d \<Rightarrow>
          (case find (\<lambda>r. session_id r = sid) (sessions d) of
             None \<Rightarrow> None
           | Some session \<Rightarrow>
               if expiry_timestamp session > utcnow then Some (SessionObject session) else None)
      | None \<Rightarrow>
          (case IN_MEMORY_SESSIONS mem sid of
             None \<Rightarrow> None
           | Some entry \<Rightarrow>
               if data_expiry_timestamp entry > utcnow then Some (SessionDict entry) else None))"

definition delete_session ::
  "string \<Rightarrow> database option \<Rightarrow> memory \<Rightarrow> bool \<times> database option \<times> memory" where
  "delete_session sid db mem =
     (case db of
        Some d \<Rightarrow>
          (case find (\<lambda>r. session_id r = sid) (sessions d) of
             Some session \<Rightarrow> (True, Some (delete_row session d), mem)
           | None \<Rightarrow> (False, Some d, mem))
      | None \<Rightarrow>
          (if IN_MEMORY_SESSIONS mem sid \<noteq> None
           then (True, None, mem\<lparr>IN_MEMORY_SESSIONS := (IN_MEMORY_SESSIONS mem)(sid := None)\<rparr>)
           else (False, None, mem)))"

section \<open>db/hana_connector.py\<close>

text \<open>
  A \<open>ConnectionContext\<close> of the \<open>hana_ml\<close> package: the parameters it was opened with,
  and what its \<open>close()\<close> will do (\<open>None\<close> when it returns, the text of the exception
  when it raises). Such an object is true in a condition, so \<open>not cc\<close> holds for
  \<open>None\<close> only.
\<close>

record connection =
  conn_address :: string
  conn_port :: int
  conn_user :: string
  conn_password :: string
  close_error :: "string option"

text \<open>A value of \<open>os.getenv\<close> is true in a condition when it is set and not empty.\<close>

definition truthy :: "string option \<Rightarrow> bool" where
  "truthy v = (case v of None \<Rightarrow> False | Some s \<Rightarrow> s \<noteq> [])"

text \<open>
  The body of the \<open>try\<close> block. The builtin \<open>int\<close> is the parameter \<open>py_int\<close>
  (\<open>None\<close> where it raises \<open>ValueError\<close>); the constructor \<open>ConnectionContext\<close>, which
  opens the connection, is a parameter too, and what it raises is an \<open>Exception\<close>
  (interrupts and interpreter exits are outside the model).
\<close>

definition try_connect ::
  "(string \<Rightarrow> int option) \<Rightarrow> (string \<Rightarrow> int \<Rightarrow> string \<Rightarrow> string \<Rightarrow> exn + connection)
     \<Rightarrow> string \<Rightarrow> string \<Rightarrow> string \<Rightarrow> string \<Rightarrow> exn + connection" where
  "try_connect py_int ConnectionContext address port user password =
     (case py_int port of
        None \<Rightarrow> Inl (ValueError port)
      | Some port_number \<Rightarrow> ConnectionContext address port_number user password)"

definition get_hana_connection ::
  "(string \<Rightarrow> int option) \<Rightarrow> (string \<Rightarrow> int \<Rightarrow> string \<Rightarrow> string \<Rightarrow> exn + connection)
     \<Rightarrow> (string \<rightharpoonup> string) \<Rightarrow> connection option" where
  "get_hana_connection py_int ConnectionContext environ =
     (let address = environ ''HANA_ADDRESS'';
          port = environ ''HANA_PORT'';
          user = environ ''HANA_USER'';
          password = environ ''HANA_PASSWORD''
      in if \<not> list_all truthy [address, port, user, password] then None
         else
           (case (address, port, user, password) of
              (Some a, Some p, Some u, Some w) \<Rightarrow>
                (case try_connect py_int ConnectionContext a p u w of
                   Inr connection \<Rightarrow> Some connection
                 | Inl (ValueError _) \<Rightarrow> None
                 | Inl _ \<Rightarrow> None)
            | _ \<Rightarrow> None))"

text \<open>
  A \<open>pandas.DataFrame\<close> is the list of its columns, each a name with its cells;
  \<open>pd.DataFrame()\<close> is the empty list. The property \<open>.empty\<close> holds when there is no
  column or no row.
\<close>

datatype cell = IntCell int | StrCell string

type_synonym dataframe = "(string \<times> cell list) list"

definition df_empty :: "dataframe \<Rightarrow> bool" where
  "df_empty df = (case df of [] \<Rightarrow> True | (_, cells) # _ \<Rightarrow> cells = [])"

definition df_columns :: "dataframe \<Rightarrow> string list" where
  "df_columns df = map fst df"

definition df_rows :: "dataframe \<Rightarrow> nat" where
  "df_rows df = (case df of [] \<Rightarrow> 0 | (_, cells) # _ \<Rightarrow> length cells)"

definition get_sales_data :: "connection option \<Rightarrow> dataframe" where
  "get_sales_data cc =
     (case cc of
        None \<Rightarrow> []
      | Some _ \<Rightarrow>
          [(''OrderID'', map IntCell [1, 2, 3, 4, 5]),
           (''Product'', map StrCell [''Laptop'', ''Mouse'', ''Keyboard'', ''Monitor'', ''Webcam'']),
           (''Quantity'', map IntCell [1, 2, 1, 1, 3]),
           (''Price'', map IntCell [1200, 25, 75, 300, 50])])"

definition get_customer_data :: "connection option \<Rightarrow> dataframe" where
  "get_customer_data cc =
     (case cc of
        None \<Rightarrow> []
      | Some _ \<Rightarrow>
          [(''CustomerID'', map IntCell [101, 102, 103, 104, 105]),
           (''Name'', map StrCell [''Alice Smith'', ''Bob Johnson'', ''Charlie Brown'',
                               ''Diana Prince'', ''Edward King'']),
           (''Segment'', map StrCell [''Retail'', ''Wholesale'', ''Retail'', ''Corporate'', ''Retail''])])"

section \<open>app/main.py\<close>

datatype MockUser = MockUser (mock_username: string)

text \<open>
  The Panel objects the builder creates: \<open>pn.pane.Markdown(text)\<close>,
  \<open>pn.pane.Alert(text, alert_type)\<close>, \<open>pn.pane.DataFrame(df, name, width, height)\<close> and
  \<open>pn.Column(*components, sizing_mode)\<close>.
\<close>

datatype pane =
  Markdown string
| Alert string string
| DataFramePane dataframe string int int

datatype view = Pane pane | Column "pane list" string

text \<open>
  The call \<open>pn.pane.DataFrame(object, name=..., width=..., height=...)\<close>, with
  \<open>show_index\<close> the value of the keyword of that name where the caller passes one. The
  class has a parameter \<open>index\<close> and none called \<open>show_index\<close>, and a keyword that is not
  a parameter makes the constructor raise \<open>TypeError\<close>.
\<close>

definition pn_pane_DataFrame ::
  "dataframe \<Rightarrow> string \<Rightarrow> int \<Rightarrow> int \<Rightarrow> bool option \<Rightarrow> exn + pane" where
  "pn_pane_DataFrame object name width height show_index =
     (case show_index of
        None \<Rightarrow> Inr (DataFramePane object name width height)
      | Some _ \<Rightarrow> Inl (TypeError ''show_index''))"

text \<open>
  The calls the builder makes on the connector module and on the handle. Each call adds
  itself to the list of calls made so far and hands back what the callee returns or raises.
  \<open>str_exn\<close> is \<open>str(e)\<close>.
\<close>

datatype call = Call_get_hana_connection | Call_get_sales_data connection | Call_close connection

fun str_exn :: "exn \<Rightarrow> string" where
  "str_exn (ValueError m) = m"
| "str_exn (TypeError m) = m"
| "str_exn (OverflowError m) = m"
| "str_exn (IntegrityError m) = m"
| "str_exn (Exception m) = m"

definition call_get_hana_connection ::
  "connection option \<Rightarrow> call list \<Rightarrow> connection option \<times> call list" where
  "call_get_hana_connection result calls = (result, calls @ [Call_get_hana_connection])"

definition call_get_sales_data ::
  "(connection option \<Rightarrow> exn + dataframe) \<Rightarrow> connection \<Rightarrow> call list
     \<Rightarrow> (exn + dataframe) \<times> call list" where
  "call_get_sales_data fetch conn calls = (fetch (Some conn), calls @ [Call_get_sales_data conn])"

definition call_close :: "connection \<Rightarrow> call list \<Rightarrow> (exn + unit) \<times> call list" where
  "call_close conn calls =
     ((case close_error conn of None \<Rightarrow> Inr () | Some m \<Rightarrow> Inl (Exception m)),
      calls @ [Call_close conn])"

text \<open>
  The builder reaches the connector through the attributes of the module
  \<open>hana_connector\<close>, looked up on each call: \<open>hana_connection\<close> is what
  \<open>hana_connector.get_hana_connection()\<close> returns and \<open>fetch\<close> is the function bound to
  \<open>hana_connector.get_sales_data\<close>, which may raise. The result is the view, or the
  exception that leaves the function, with the calls made up to then. Only \<open>close()\<close> is
  inside a \<open>try\<close>.
\<close>

definition create_sales_dashboard ::
  "connection option \<Rightarrow> (connection option \<Rightarrow> exn + dataframe) \<Rightarrow> MockUser option
     \<Rightarrow> (exn + view) \<times> call list" where
  "create_sales_dashboard hana_connection fetch user =
     (case user of
        None \<Rightarrow> (Inr (Pane (Markdown ''## Error: No user context provided.'')), [])
      | Some u \<Rightarrow>
          let components0 = [Markdown (''# Sales Dashboard for '' @ mock_username u)];
              (hana_conn, calls1) = call_get_hana_connection hana_connection []
          in (case hana_conn of
                None \<Rightarrow>
                  let components1 = components0 @
                        [Alert ''Error: Could not connect to SAP HANA. Please check connection details or environment variables.'' ''danger'']
                  in (case pn_pane_DataFrame [] ''Sales Data'' 800 300 None of
                        Inl e \<Rightarrow> (Inl e, calls1)
                      | Inr sales_df_pane \<Rightarrow>
                          (Inr (Column (components1 @ [sales_df_pane]) ''stretch_both''), calls1))
              | Some conn \<Rightarrow>
                  let components1 = components0 @
                        [Alert ''Successfully connected to SAP HANA.'' ''success''];
                      (fetched, calls2) = call_get_sales_data fetch conn calls1
                  in (case fetched of
                        Inl e \<Rightarrow> (Inl e, calls2)
                      | Inr sales_df \<Rightarrow>
                          let components2 =
                                (if df_empty sales_df
                                 then components1 @
                                   [Alert ''No sales data available or an error occurred during fetching.'' ''warning'']
                                 else components1)
                          in (case (if df_empty sales_df
                                    then pn_pane_DataFrame [] ''Sales Data'' 800 300 None
                                    else pn_pane_DataFrame sales_df ''Sales Data'' 800 300 (Some False)) of
                                Inl e \<Rightarrow> (Inl e, calls2)
                              | Inr sales_df_pane \<Rightarrow>
                                  let (closed, calls3) = call_close conn calls2;
                                      components3 =
                                        (case closed of
                                           Inr _ \<Rightarrow> components2
                                         | Inl e \<Rightarrow> components2 @
                                             [Alert (''Warning: Could not close SAP HANA connection: '' @ str_exn e) ''warning''])
                                  in (Inr (Column (components3 @ [sales_df_pane]) ''stretch_both''),
                                      calls3)))))"

text \<open>The module-level wiring: the mock user and the connector's own functions.\<close>

definition current_user :: "MockUser option" where
  "current_user = Some (MockUser ''testuser'')"

definition dashboard_view ::
  "(string \<Rightarrow> int option) \<Rightarrow> (string \<Rightarrow> int \<Rightarrow> string \<Rightarrow> string \<Rightarrow> exn + connection)
     \<Rightarrow> (string \<rightharpoonup> string) \<Rightarrow> (exn + view) \<times> call list" where
  "dashboard_view py_int ConnectionContext environ =
     create_sales_dashboard (get_hana_connection py_int ConnectionContext environ)
       (\<lambda>cc. Inr (get_sales_data cc)) current_user"

section \<open>Notions used to state the properties\<close>

text \<open>
  The unique constraint on \<open>sessions.session_id\<close>, as a property of the table. It holds of
  the empty table and every operation of the module keeps it.
\<close>

definition unique_session_ids :: "database option \<Rightarrow> bool" where
  "unique_session_ids db =
     (case db of None \<Rightarrow> True | Some d \<Rightarrow> distinct (map session_id (sessions d)))"

text \<open>The database takes a new session row with this token and user id.\<close>

definition accepts_session :: "string \<Rightarrow> int \<Rightarrow> database \<Rightarrow> bool" where
  "accepts_session sid uid d =
     (in_Integer_range uid
      \<and> \<not> list_ex (\<lambda>r. session_id r = sid) (sessions d)
      \<and> (foreign_keys d \<longrightarrow> list_ex (\<lambda>u. user_pk u = uid) (users d)))"

text \<open>A record is stored under the token \<open>sid\<close>.\<close>

definition session_known :: "string \<Rightarrow> database option \<Rightarrow> memory \<Rightarrow> bool" where
  "session_known sid db mem =
     (case db of
        Some d \<Rightarrow> list_ex (\<lambda>row. session_id row = sid) (sessions d)
      | None \<Rightarrow> IN_MEMORY_SESSIONS mem sid \<noteq> None)"

text \<open>The record \<open>r\<close> is stored under the token \<open>sid\<close>.\<close>

definition stored_session :: "string \<Rightarrow> database option \<Rightarrow> memory \<Rightarrow> session_result \<Rightarrow> bool" where
  "stored_session sid db mem r =
     (case db of
        Some d \<Rightarrow>
          (case r of
             SessionObject row \<Rightarrow> row \<in> set (sessions d) \<and> session_id row = sid
           | SessionDict _ \<Rightarrow> False)
      | None \<Rightarrow>
          (case r of
             SessionDict entry \<Rightarrow> IN_MEMORY_SESSIONS mem sid = Some entry
           | SessionObject _ \<Rightarrow> False))"

fun record_user_id :: "session_result \<Rightarrow> int" where
  "record_user_id (SessionObject row) = user_id row"
| "record_user_id (SessionDict entry) = data_user_id entry"

fun record_expiry :: "session_result \<Rightarrow> datetime" where
  "record_expiry (SessionObject row) = expiry_timestamp row"
| "record_expiry (SessionDict entry) = data_expiry_timestamp entry"

text \<open>The user record that a lookup by username finds.\<close>

definition stored_user :: "string \<Rightarrow> database option \<Rightarrow> memory \<Rightarrow> user_result option" where
  "stored_user name db mem =
     (case db of
        Some d \<Rightarrow> map_option UserObject (find (\<lambda>r. username r = name) (users d))
      | None \<Rightarrow> map_option UserDict (IN_MEMORY_USERS mem name))"

fun record_password_hash :: "user_result \<Rightarrow> string" where
  "record_password_hash (UserObject row) = password_hash row"
| "record_password_hash (UserDict entry) = data_password_hash entry"

text \<open>
  \<open>get_hana_connection\<close> after its four reads of the environment, as a function of the
  four values.
\<close>

definition connect_with ::
  "(string \<Rightarrow> int option) \<Rightarrow> (string \<Rightarrow> int \<Rightarrow> string \<Rightarrow> string \<Rightarrow> exn + connection)
     \<Rightarrow> string option \<Rightarrow> string option \<Rightarrow> string option \<Rightarrow> string option \<Rightarrow> connection option" where
  "connect_with py_int ConnectionContext address port user password =
     (if \<not> list_all truthy [address, port, user, password] then None
      else
        (case (address, port, user, password) of
           (Some a, Some p, Some u, Some w) \<Rightarrow>
             (case try_connect py_int ConnectionContext a p u w of
                Inr connection \<Rightarrow> Some connection
              | Inl (ValueError _) \<Rightarrow> None
              | Inl _ \<Rightarrow> None)
         | _ \<Rightarrow> None))"

text \<open>The notice the builder adds when \<open>close()\<close> raises.\<close>

definition close_notice :: "connection \<Rightarrow> pane list" where
  "close_notice conn =
     (case close_error conn of
        None \<Rightarrow> []
      | Some e \<Rightarrow> [Alert (''Warning: Could not close SAP HANA connection: '' @ e) ''warning''])"

section \<open>Password hashing\<close>

text \<open>
  \<open>hash_password\<close> and \<open>verify_password\<close> hand their arguments to \<open>bcrypt\<close> and return
  what it returns. Whether a password verifies against its own hash, and whether another
  one does, is therefore a property of the package, which the repository does not fix:
  the two lemmas below give one \<open>bcrypt\<close> for which verification accepts the hashed
  password and no other, and one (which reads 72 bytes of the password only) for which two
  different passwords verify against the same hash.
\<close>

lemma verify_password_of_hash:
  "hash_password bc salt password = Inr hashed \<Longrightarrow>
     verify_password bc other hashed = checkpw bc other hashed"
  by (simp add: verify_password_def)

lemma verify_password_exact_bcrypt:
  "hash_password \<lparr>hashpw = \<lambda>p s. Inr (s @ p), checkpw = \<lambda>p h. Inr (drop 4 h = p)\<rparr>
       ''$2b$'' password
     = Inr (''$2b$'' @ password)
   \<and> verify_password \<lparr>hashpw = \<lambda>p s. Inr (s @ p), checkpw = \<lambda>p h. Inr (drop 4 h = p)\<rparr>
       other (''$2b$'' @ password)
     = Inr (other = password)"
  by (auto simp: hash_password_def verify_password_def)

lemma verify_password_truncating_bcrypt:
  "hash_password
       \<lparr>hashpw = \<lambda>p s. Inr (s @ take 72 p), checkpw = \<lambda>p h. Inr (drop 4 h = take 72 p)\<rparr>
       ''$2b$'' (replicate 72 CHR ''a'')
     = Inr (''$2b$'' @ replicate 72 CHR ''a'')
   \<and> replicate 72 CHR ''a'' @ ''b'' \<noteq> replicate 72 CHR ''a''
   \<and> verify_password
       \<lparr>hashpw = \<lambda>p s. Inr (s @ take 72 p), checkpw = \<lambda>p h. Inr (drop 4 h = take 72 p)\<rparr>
       (replicate 72 CHR ''a'' @ ''b'') (''$2b$'' @ replicate 72 CHR ''a'')
     = Inr True"
  by (simp add: hash_password_def verify_password_def)

section \<open>Lists as tables\<close>

lemma find_unique_key:
  "distinct (map f xs) \<Longrightarrow> r \<in> set xs \<Longrightarrow> find (\<lambda>x. f x = f r) xs = Some r"
  by (induction xs) (auto simp: image_iff)

lemma find_fresh_append:
  "\<not> list_ex P xs \<Longrightarrow> P y \<Longrightarrow> find P (xs @ [y]) = Some y"
  by (induction xs) auto

lemma find_None_list_ex: "find P xs = None \<longleftrightarrow> \<not> list_ex P xs"
  by (induction xs) auto

lemma add_session_Inr:
  "add_session sid uid expiry d = Inr (row, d') \<Longrightarrow>
     accepts_session sid uid d \<and> session_id row = sid \<and> user_id row = uid
     \<and> expiry_timestamp row = expiry \<and> d' = d\<lparr>sessions := sessions d @ [row]\<rparr>"
  by (auto simp: add_session_def accepts_session_def Let_def split: if_splits)

lemma add_session_Inl:
  "add_session sid uid expiry d = Inl e \<Longrightarrow>
     \<not> accepts_session sid uid d \<and>
     e = (if \<not> in_Integer_range uid then OverflowError ''sessions.user_id''
          else if list_ex (\<lambda>r. session_id r = sid) (sessions d)
            then IntegrityError ''sessions.session_id''
          else IntegrityError ''sessions.user_id'')"
  by (auto simp: add_session_def accepts_session_def Let_def split: if_splits)

lemma add_session_accepts:
  "accepts_session sid uid d \<Longrightarrow> \<exists>row d'. add_session sid uid expiry d = Inr (row, d')"
  by (auto simp: add_session_def accepts_session_def Let_def)

lemma filter_pk_no_key:
  assumes "distinct (map session_id xs)" and "find (\<lambda>x. session_id x = sid) xs = Some r"
  shows "\<not> list_ex (\<lambda>x. session_id x = sid) (filter (\<lambda>x. session_pk x \<noteq> session_pk r) xs)"
proof
  assume "list_ex (\<lambda>x. session_id x = sid) (filter (\<lambda>x. session_pk x \<noteq> session_pk r) xs)"
  then obtain x where x: "x \<in> set xs" "session_id x = sid" "session_pk x \<noteq> session_pk r"
    by (auto simp: list_ex_iff)
  from assms(2) have "session_id r = sid" by (auto simp: find_Some_iff)
  with find_unique_key [OF assms(1) x(1)] x(2) assms(2) have "x = r" by simp
  with x(3) show False by simp
qed

section \<open>The unique constraint is kept\<close>

lemma unique_session_ids_empty:
  "unique_session_ids (Some \<lparr>users = us, sessions = [], foreign_keys = fk\<rparr>)"
  by (simp add: unique_session_ids_def)

lemma add_session_unique:
  "add_session sid uid expiry d = Inr (row, d') \<Longrightarrow> distinct (map session_id (sessions d))
     \<Longrightarrow> distinct (map session_id (sessions d'))"
  by (auto simp: add_session_def Let_def list_ex_iff split: if_splits)

lemma create_session_unique:
  "create_session uid db urandom utcnow mem = Inr (token, db', mem') \<Longrightarrow> unique_session_ids db
     \<Longrightarrow> unique_session_ids db'"
  by (cases db)
     (auto simp: create_session_def unique_session_ids_def Let_def
           split: sum.splits dest: add_session_unique)

lemma delete_session_unique:
  "delete_session sid db mem = (b, db', mem') \<Longrightarrow> unique_session_ids db
     \<Longrightarrow> unique_session_ids db'"
  by (cases db)
     (auto simp: delete_session_def unique_session_ids_def delete_row_def distinct_map_filter
           split: option.splits if_splits)

lemma create_user_unique:
  "create_user bc salt name mail password db mem = Inr (u, db', mem') \<Longrightarrow> unique_session_ids db
     \<Longrightarrow> unique_session_ids db'"
  by (cases db)
     (auto simp: create_user_def unique_session_ids_def add_user_def Let_def
           split: sum.splits if_splits)

section \<open>Sessions\<close>

text \<open>
  C2. For every user id: when \<open>create_session\<close> returns a token, it is the hex form of
  the random bytes, the record with this user id and with expiry one hour after the
  creation time has been put under the token into the store the caller passed (one row
  more in the database's table, or one entry set in \<open>IN_MEMORY_SESSIONS\<close>) and nothing else
  has changed, and \<open>get_session\<close> with that token on that store, called before the hour has
  passed, returns this record: same user id, expiry later than the creation time. Without
  a database \<open>create_session\<close> always returns; with one it returns exactly when the
  database takes the row, and otherwise raises \<open>OverflowError\<close> (user id outside the
  \<open>Integer\<close> range) or \<open>IntegrityError\<close> (token already stored, or foreign key checked and
  no user with this id).
\<close>

theorem create_session_then_get_session:
  assumes "utcnow' < utcnow + timedelta_hours 1"
  shows "case create_session uid db urandom utcnow mem of
           Inr (token, db', mem') \<Rightarrow>
             token = hex urandom
             \<and> (case db of
                  None \<Rightarrow>
                    db' = None
                    \<and> mem' = mem\<lparr>IN_MEMORY_SESSIONS := (IN_MEMORY_SESSIONS mem)
                               (token \<mapsto> \<lparr>data_user_id = uid,
                                           data_expiry_timestamp = utcnow + timedelta_hours 1\<rparr>)\<rparr>
                | Some d \<Rightarrow>
                    accepts_session token uid d \<and> mem' = mem
                    \<and> (\<exists>row. db' = Some (d\<lparr>sessions := sessions d @ [row]\<rparr>)
                           \<and> session_id row = token \<and> user_id row = uid
                           \<and> expiry_timestamp row = utcnow + timedelta_hours 1))
             \<and> (\<exists>r. get_session token db' utcnow' mem' = Some r
                    \<and> stored_session token db' mem' r \<and> record_user_id r = uid
                    \<and> record_expiry r = utcnow + timedelta_hours 1 \<and> utcnow < record_expiry r)
         | Inl e \<Rightarrow>
             (\<exists>d. db = Some d \<and> \<not> accepts_session (hex urandom) uid d
                \<and> e = (if \<not> in_Integer_range uid then OverflowError ''sessions.user_id''
                       else if list_ex (\<lambda>r. session_id r = hex urandom) (sessions d)
                         then IntegrityError ''sessions.session_id''
                       else IntegrityError ''sessions.user_id''))"
proof (cases db)
  case None
  with assms show ?thesis
    by (simp add: create_session_def get_session_def stored_session_def timedelta_hours_def Let_def)
next
  case (Some d)
  show ?thesis
  proof (cases "add_session (hex urandom) uid (utcnow + timedelta_hours 1) d")
    case (Inl e)
    with Some add_session_Inl [OF Inl] show ?thesis
      by (simp add: create_session_def Let_def)
  next
    case (Inr p)
    obtain row d' where p: "p = (row, d')" by (cases p)
    from add_session_Inr [OF Inr [unfolded p]]
    have acc: "accepts_session (hex urandom) uid d"
      and row: "session_id row = hex urandom" "user_id row = uid"
               "expiry_timestamp row = utcnow + timedelta_hours 1"
      and d': "d' = d\<lparr>sessions := sessions d @ [row]\<rparr>"
      by simp_all
    from acc have fresh: "\<not> list_ex (\<lambda>r. session_id r = hex urandom) (sessions d)"
      by (simp add: accepts_session_def)
    from find_fresh_append [of "\<lambda>r. session_id r = hex urandom", OF fresh row(1)] d'
    have f: "find (\<lambda>r. session_id r = hex urandom) (sessions d') = Some row" by simp
    have g: "get_session (hex urandom) (Some d') utcnow' mem = Some (SessionObject row)"
      using f row assms by (simp add: get_session_def)
    have st: "stored_session (hex urandom) (Some d') mem (SessionObject row)"
      using d' row by (simp add: stored_session_def)
    have c: "create_session uid db urandom utcnow mem = Inr (hex urandom, Some d', mem)"
      using Some Inr p row by (simp add: create_session_def Let_def)
    have lt: "utcnow < utcnow + timedelta_hours 1"
      by (simp add: timedelta_hours_def)
    have ex: "\<exists>r. get_session (hex urandom) (Some d') utcnow' mem = Some r
        \<and> stored_session (hex urandom) (Some d') mem r \<and> record_user_id r = uid
        \<and> record_expiry r = utcnow + timedelta_hours 1 \<and> utcnow < record_expiry r"
      using g st row lt by simp
    have tie: "\<exists>row. Some d' = Some (d\<lparr>sessions := sessions d @ [row]\<rparr>)
        \<and> session_id row = hex urandom \<and> user_id row = uid
        \<and> expiry_timestamp row = utcnow + timedelta_hours 1"
      using d' row by blast
    from c Some acc tie ex show ?thesis
      by simp
  qed
qed

theorem create_session_then_get_session_witness:
  "(1001 :: int) < 1000 + timedelta_hours 1
   \<and> (case create_session 7 None [15, 160] 1000
              \<lparr>IN_MEMORY_USERS = Map.empty, IN_MEMORY_SESSIONS = Map.empty\<rparr> of
         Inr (token, db', mem') \<Rightarrow>
           token = ''0fa0'' \<and> db' = None \<and>
           (\<exists>r. get_session token db' 1001 mem' = Some r \<and> record_user_id r = 7
                \<and> record_expiry r = 3600001000)
       | Inl e \<Rightarrow> False)
   \<and> (case create_session 7
              (Some \<lparr>users = [\<lparr>user_pk = 7, username = ''alice'', email = ''a@example.com'',
                                password_hash = ''h''\<rparr>],
                      sessions = [], foreign_keys = True\<rparr>)
              [15, 160] 1000
              \<lparr>IN_MEMORY_USERS = Map.empty, IN_MEMORY_SESSIONS = Map.empty\<rparr> of
         Inr (token, db', mem') \<Rightarrow>
           token = ''0fa0'' \<and> db' \<noteq> None \<and>
           (\<exists>r. get_session token db' 1001 mem' = Some r \<and> record_user_id r = 7
                \<and> record_expiry r = 3600001000)
       | Inl e \<Rightarrow> False)
   \<and> create_session (2 ^ 63)
        (Some \<lparr>users = [], sessions = [], foreign_keys = False\<rparr>)
        [15, 160] 1000
        \<lparr>IN_MEMORY_USERS = Map.empty, IN_MEMORY_SESSIONS = Map.empty\<rparr>
      = Inl (OverflowError ''sessions.user_id'')"
proof -
  have h: "(1001 :: int) < 1000 + timedelta_hours 1"
    by (simp add: timedelta_hours_def)
  have x: "hex [15, 160] = ''0fa0''"
    by (simp add: hex_def hex_digit_def)
  show ?thesis
    using h
      create_session_then_get_session [OF h, where uid = 7 and db = None
        and urandom = "[15, 160]"
        and mem = "\<lparr>IN_MEMORY_USERS = Map.empty, IN_MEMORY_SESSIONS = Map.empty\<rparr>"]
      create_session_then_get_session [OF h, where uid = 7
        and db = "Some \<lparr>users = [\<lparr>user_pk = 7, username = ''alice'', email = ''a@example.com'',
                           password_hash = ''h''\<rparr>],
                 sessions = [], foreign_keys = True\<rparr>"
        and urandom = "[15, 160]"
        and mem = "\<lparr>IN_MEMORY_USERS = Map.empty, IN_MEMORY_SESSIONS = Map.empty\<rparr>"]
      create_session_then_get_session [OF h, where uid = "2 ^ 63"
        and db = "Some \<lparr>users = [], sessions = [], foreign_keys = False\<rparr>"
        and urandom = "[15, 160]"
        and mem = "\<lparr>IN_MEMORY_USERS = Map.empty, IN_MEMORY_SESSIONS = Map.empty\<rparr>"]
    by (auto simp: x create_session_def add_session_def in_Integer_range_def Let_def
          timedelta_hours_def)
qed

lemma get_session_Some_iff:
  assumes "unique_session_ids db"
  shows "get_session sid db utcnow mem = Some r \<longleftrightarrow>
           stored_session sid db mem r \<and> utcnow < record_expiry r"
proof (cases db)
  case None
  then show ?thesis
    by (cases r) (auto simp: get_session_def stored_session_def split: option.splits)
next
  case (Some d)
  with assms have dist: "distinct (map session_id (sessions d))"
    by (simp add: unique_session_ids_def)
  show ?thesis
  proof (cases r)
    case (SessionObject row)
    show ?thesis
    proof
      assume "get_session sid db utcnow mem = Some r"
      with Some SessionObject
      have f: "find (\<lambda>x. session_id x = sid) (sessions d) = Some row"
        and e: "utcnow < expiry_timestamp row"
        by (auto simp: get_session_def split: option.splits if_splits)
      from f have "row \<in> set (sessions d)" "session_id row = sid"
        by (auto simp: find_Some_iff)
      with e Some SessionObject show "stored_session sid db mem r \<and> utcnow < record_expiry r"
        by (simp add: stored_session_def)
    next
      assume a: "stored_session sid db mem r \<and> utcnow < record_expiry r"
      with Some SessionObject have m: "row \<in> set (sessions d)" and k: "session_id row = sid"
        and e: "utcnow < expiry_timestamp row"
        by (auto simp: stored_session_def)
      from find_unique_key [OF dist m] k
      have "find (\<lambda>x. session_id x = sid) (sessions d) = Some row" by simp
      with e Some SessionObject show "get_session sid db utcnow mem = Some r"
        by (simp add: get_session_def)
    qed
  next
    case (SessionDict entry)
    with Some show ?thesis
      by (auto simp: get_session_def stored_session_def split: option.splits if_splits)
  qed
qed

lemma stored_session_unique:
  assumes "unique_session_ids db"
    and "stored_session sid db mem r" and "stored_session sid db mem r'"
  shows "r' = r"
proof (cases db)
  case None
  with assms(2,3) show ?thesis
    by (cases r; cases r') (auto simp: stored_session_def)
next
  case (Some d)
  with assms(1) have dist: "distinct (map session_id (sessions d))"
    by (simp add: unique_session_ids_def)
  from Some assms(2,3) obtain row row'
    where r: "r = SessionObject row" "r' = SessionObject row'"
      and m: "row \<in> set (sessions d)" "row' \<in> set (sessions d)"
      and k: "session_id row = sid" "session_id row' = sid"
    by (cases r; cases r') (auto simp: stored_session_def)
  from find_unique_key [OF dist m(1)] find_unique_key [OF dist m(2)] k
  have "row = row'" by simp
  with r show ?thesis by simp
qed

text \<open>
  C3. For every stored session whose expiry is not strictly later than the current time,
  \<open>get_session\<close> with its token returns nothing; and \<open>get_session\<close> returns a record
  exactly when that record is stored under the token and its expiry is later than the
  current time. On the database path the table obeys the unique constraint on
  \<open>session_id\<close>.
\<close>

theorem get_session_expired:
  assumes "unique_session_ids db"
  shows "(stored_session sid db mem r \<and> record_expiry r \<le> utcnow
            \<longrightarrow> get_session sid db utcnow mem = None)
       \<and> (get_session sid db utcnow mem = Some r
            \<longleftrightarrow> stored_session sid db mem r \<and> utcnow < record_expiry r)"
proof (intro conjI impI)
  assume a: "stored_session sid db mem r \<and> record_expiry r \<le> utcnow"
  show "get_session sid db utcnow mem = None"
  proof (rule ccontr)
    assume "get_session sid db utcnow mem \<noteq> None"
    then obtain r' where g: "get_session sid db utcnow mem = Some r'" by auto
    with get_session_Some_iff [OF assms]
    have s': "stored_session sid db mem r'" and e': "utcnow < record_expiry r'" by auto
    from stored_session_unique [OF assms _ s'] a have "r' = r" by simp
    with a e' show False by simp
  qed
next
  show "get_session sid db utcnow mem = Some r
          \<longleftrightarrow> stored_session sid db mem r \<and> utcnow < record_expiry r"
    by (rule get_session_Some_iff [OF assms])
qed

theorem get_session_expired_witness:
  "unique_session_ids
     (Some \<lparr>users = [],
            sessions = [\<lparr>session_pk = 1, session_id = ''ab'', user_id = 7, expiry_timestamp = 100\<rparr>,
                        \<lparr>session_pk = 2, session_id = ''cd'', user_id = 8, expiry_timestamp = 500\<rparr>],
            foreign_keys = False\<rparr>)
   \<and> get_session ''ab''
       (Some \<lparr>users = [],
              sessions = [\<lparr>session_pk = 1, session_id = ''ab'', user_id = 7, expiry_timestamp = 100\<rparr>,
                          \<lparr>session_pk = 2, session_id = ''cd'', user_id = 8, expiry_timestamp = 500\<rparr>],
              foreign_keys = False\<rparr>)
       100 \<lparr>IN_MEMORY_USERS = Map.empty, IN_MEMORY_SESSIONS = Map.empty\<rparr> = None
   \<and> get_session ''ab'' None 100
       \<lparr>IN_MEMORY_USERS = Map.empty,
        IN_MEMORY_SESSIONS = [''ab'' \<mapsto> \<lparr>data_user_id = 7, data_expiry_timestamp = 100\<rparr>]\<rparr> = None
   \<and> get_session ''ab'' None 99
       \<lparr>IN_MEMORY_USERS = Map.empty,
        IN_MEMORY_SESSIONS = [''ab'' \<mapsto> \<lparr>data_user_id = 7, data_expiry_timestamp = 100\<rparr>]\<rparr>
       = Some (SessionDict \<lparr>data_user_id = 7, data_expiry_timestamp = 100\<rparr>)"
proof -
  let ?d = "Some \<lparr>users = [],
            sessions = [\<lparr>session_pk = 1, session_id = ''ab'', user_id = 7, expiry_timestamp = 100\<rparr>,
                        \<lparr>session_pk = 2, session_id = ''cd'', user_id = 8, expiry_timestamp = 500\<rparr>],
            foreign_keys = False\<rparr>"
  let ?m = "\<lparr>IN_MEMORY_USERS = Map.empty,
        IN_MEMORY_SESSIONS = [''ab'' \<mapsto> \<lparr>data_user_id = 7, data_expiry_timestamp = 100\<rparr>]\<rparr>"
  have u: "unique_session_ids ?d" and n: "unique_session_ids None"
    by (simp_all add: unique_session_ids_def)
  show ?thesis
    using u
      get_session_expired [OF u, where sid = "''ab''" and utcnow = 100
        and mem = "\<lparr>IN_MEMORY_USERS = Map.empty, IN_MEMORY_SESSIONS = Map.empty\<rparr>"
        and r = "SessionObject \<lparr>session_pk = 1, session_id = ''ab'', user_id = 7, expiry_timestamp = 100\<rparr>"]
      get_session_expired [OF n, where sid = "''ab''" and utcnow = 100 and mem = ?m
        and r = "SessionDict \<lparr>data_user_id = 7, data_expiry_timestamp = 100\<rparr>"]
      get_session_expired [OF n, where sid = "''ab''" and utcnow = 99 and mem = ?m
        and r = "SessionDict \<lparr>data_user_id = 7, data_expiry_timestamp = 100\<rparr>"]
    by (simp add: stored_session_def)
qed

text \<open>
  C4. \<open>delete_session\<close> returns true exactly when a record is stored under the token;
  afterwards none is, so a second call with the same token returns false and changes
  nothing, as does a call with an unknown token.
\<close>

theorem delete_session_true_once:
  assumes "unique_session_ids db"
  shows "case delete_session sid db mem of
           (deleted, db', mem') \<Rightarrow>
             deleted = session_known sid db mem
             \<and> \<not> session_known sid db' mem'
             \<and> delete_session sid db' mem' = (False, db', mem')
             \<and> (\<not> deleted \<longrightarrow> db' = db \<and> mem' = mem)"
proof (cases db)
  case None
  then show ?thesis
    by (simp add: delete_session_def session_known_def)
next
  case (Some d)
  with assms have dist: "distinct (map session_id (sessions d))"
    by (simp add: unique_session_ids_def)
  show ?thesis
  proof (cases "find (\<lambda>r. session_id r = sid) (sessions d)")
    case None
    then have "\<not> list_ex (\<lambda>x. session_id x = sid) (sessions d)"
      by (simp add: find_None_list_ex)
    with None \<open>db = Some d\<close> show ?thesis
      by (simp add: delete_session_def session_known_def)
  next
    case (Some row)
    from filter_pk_no_key [OF dist Some]
    have gone: "\<not> list_ex (\<lambda>x. session_id x = sid) (sessions (delete_row row d))"
      by (simp add: delete_row_def)
    then have "find (\<lambda>r. session_id r = sid) (sessions (delete_row row d)) = None"
      by (simp add: find_None_list_ex)
    moreover from Some have "list_ex (\<lambda>x. session_id x = sid) (sessions d)"
      using find_None_list_ex [of "\<lambda>x. session_id x = sid" "sessions d"] by simp
    ultimately show ?thesis
      using \<open>db = Some d\<close> Some gone
      by (simp add: delete_session_def session_known_def)
  qed
qed

theorem delete_session_true_once_witness:
  "unique_session_ids
     (Some \<lparr>users = [],
            sessions = [\<lparr>session_pk = 1, session_id = ''ab'', user_id = 7, expiry_timestamp = 100\<rparr>,
                        \<lparr>session_pk = 2, session_id = ''cd'', user_id = 8, expiry_timestamp = 500\<rparr>],
            foreign_keys = False\<rparr>)
   \<and> delete_session ''ab''
       (Some \<lparr>users = [],
              sessions = [\<lparr>session_pk = 1, session_id = ''ab'', user_id = 7, expiry_timestamp = 100\<rparr>,
                          \<lparr>session_pk = 2, session_id = ''cd'', user_id = 8, expiry_timestamp = 500\<rparr>],
              foreign_keys = False\<rparr>)
       \<lparr>IN_MEMORY_USERS = Map.empty, IN_MEMORY_SESSIONS = Map.empty\<rparr>
     = (True,
        Some \<lparr>users = [],
              sessions = [\<lparr>session_pk = 2, session_id = ''cd'', user_id = 8, expiry_timestamp = 500\<rparr>],
              foreign_keys = False\<rparr>,
        \<lparr>IN_MEMORY_USERS = Map.empty, IN_MEMORY_SESSIONS = Map.empty\<rparr>)
   \<and> delete_session ''ab''
       (Some \<lparr>users = [],
              sessions = [\<lparr>session_pk = 2, session_id = ''cd'', user_id = 8, expiry_timestamp = 500\<rparr>],
              foreign_keys = False\<rparr>)
       \<lparr>IN_MEMORY_USERS = Map.empty, IN_MEMORY_SESSIONS = Map.empty\<rparr>
     = (False,
        Some \<lparr>users = [],
              sessions = [\<lparr>session_pk = 2, session_id = ''cd'', user_id = 8, expiry_timestamp = 500\<rparr>],
              foreign_keys = False\<rparr>,
        \<lparr>IN_MEMORY_USERS = Map.empty, IN_MEMORY_SESSIONS = Map.empty\<rparr>)
   \<and> fst (delete_session ''ab'' None
        \<lparr>IN_MEMORY_USERS = Map.empty,
         IN_MEMORY_SESSIONS = [''ab'' \<mapsto> \<lparr>data_user_id = 7, data_expiry_timestamp = 100\<rparr>]\<rparr>)
   \<and> \<not> fst (delete_session ''zz'' None
        \<lparr>IN_MEMORY_USERS = Map.empty,
         IN_MEMORY_SESSIONS = [''ab'' \<mapsto> \<lparr>data_user_id = 7, data_expiry_timestamp = 100\<rparr>]\<rparr>)"
proof -
  let ?d = "Some \<lparr>users = [],
            sessions = [\<lparr>session_pk = 1, session_id = ''ab'', user_id = 7, expiry_timestamp = 100\<rparr>,
                        \<lparr>session_pk = 2, session_id = ''cd'', user_id = 8, expiry_timestamp = 500\<rparr>],
            foreign_keys = False\<rparr>"
  let ?e = "\<lparr>IN_MEMORY_USERS = Map.empty, IN_MEMORY_SESSIONS = Map.empty\<rparr>"
  let ?m = "\<lparr>IN_MEMORY_USERS = Map.empty,
        IN_MEMORY_SESSIONS = [''ab'' \<mapsto> \<lparr>data_user_id = 7, data_expiry_timestamp = 100\<rparr>]\<rparr>"
  have u: "unique_session_ids ?d" and n: "unique_session_ids None"
    by (simp_all add: unique_session_ids_def)
  have d: "delete_session ''ab'' ?d ?e
     = (True,
        Some \<lparr>users = [],
              sessions = [\<lparr>session_pk = 2, session_id = ''cd'', user_id = 8, expiry_timestamp = 500\<rparr>],
              foreign_keys = False\<rparr>, ?e)"
    by (simp add: delete_session_def delete_row_def)
  show ?thesis
    using u d
      delete_session_true_once [OF u, where sid = "''ab''" and mem = ?e]
      delete_session_true_once [OF n, where sid = "''ab''" and mem = ?m]
      delete_session_true_once [OF n, where sid = "''zz''" and mem = ?m]
    by (simp add: session_known_def split: prod.splits)
qed

section \<open>Users\<close>

lemma authenticate_user_result:
  "authenticate_user bc name password db mem =
     (case stored_user name db mem of
        None \<Rightarrow> Inr None
      | Some u \<Rightarrow>
          (case verify_password bc password (record_password_hash u) of
             Inl e \<Rightarrow> Inl e
           | Inr ok \<Rightarrow> Inr (if ok then Some u else None)))"
  by (cases db) (auto simp: authenticate_user_def stored_user_def split: option.splits sum.splits)

text \<open>
  C5. \<open>authenticate_user\<close> returns \<open>None\<close> when no user has the name, and \<open>None\<close> when a
  user has it and the password does not verify against the stored hash: the caller gets
  the same value in both cases.
\<close>

theorem authenticate_user_absent:
  assumes "stored_user name1 db1 mem1 = None"
      and "stored_user name2 db2 mem2 = Some u"
      and "verify_password bc password2 (record_password_hash u) = Inr False"
  shows "authenticate_user bc name1 password1 db1 mem1 = Inr None
       \<and> authenticate_user bc name2 password2 db2 mem2 = Inr None
       \<and> authenticate_user bc name1 password1 db1 mem1
           = authenticate_user bc name2 password2 db2 mem2"
  using assms
  by (cases db1; cases db2)
     (auto simp: authenticate_user_def stored_user_def split: option.splits)

theorem authenticate_user_absent_witness:
  "authenticate_user \<lparr>hashpw = \<lambda>p s. Inr (s @ p), checkpw = \<lambda>p h. Inr (h = ''$2b$'' @ p)\<rparr>
     ''bob'' ''secret'' None
     \<lparr>IN_MEMORY_USERS = [''alice'' \<mapsto> \<lparr>data_email = ''a@example.com'',
                                          data_password_hash = ''$2b$secret''\<rparr>],
      IN_MEMORY_SESSIONS = Map.empty\<rparr> = Inr None
   \<and> authenticate_user \<lparr>hashpw = \<lambda>p s. Inr (s @ p), checkpw = \<lambda>p h. Inr (h = ''$2b$'' @ p)\<rparr>
     ''alice'' ''guess''
     (Some \<lparr>users = [\<lparr>user_pk = 1, username = ''alice'', email = ''a@example.com'',
                      password_hash = ''$2b$secret''\<rparr>],
            sessions = [], foreign_keys = False\<rparr>)
     \<lparr>IN_MEMORY_USERS = Map.empty, IN_MEMORY_SESSIONS = Map.empty\<rparr> = Inr None"
proof -
  let ?bc = "\<lparr>hashpw = \<lambda>p s. Inr (s @ p), checkpw = \<lambda>p h. Inr (h = ''$2b$'' @ p)\<rparr>"
  let ?m = "\<lparr>IN_MEMORY_USERS = [''alice'' \<mapsto> \<lparr>data_email = ''a@example.com'',
                                          data_password_hash = ''$2b$secret''\<rparr>],
      IN_MEMORY_SESSIONS = Map.empty\<rparr>"
  let ?row = "\<lparr>user_pk = 1, username = ''alice'', email = ''a@example.com'',
                      password_hash = ''$2b$secret''\<rparr>"
  let ?d = "Some \<lparr>users = [?row], sessions = [], foreign_keys = False\<rparr>"
  let ?e = "\<lparr>IN_MEMORY_USERS = Map.empty, IN_MEMORY_SESSIONS = Map.empty\<rparr>"
  have a: "stored_user ''bob'' None ?m = None"
    by (simp add: stored_user_def)
  have b: "stored_user ''alice'' ?d ?e = Some (UserObject ?row)"
    by (simp add: stored_user_def)
  have c: "verify_password ?bc ''guess'' (record_password_hash (UserObject ?row)) = Inr False"
    by (simp add: verify_password_def)
  from authenticate_user_absent [OF a b c, of "''secret''"] show ?thesis
    by simp
qed

text \<open>
  C10. Without a database, \<open>create_user\<close> with a username that is already a key of
  \<open>IN_MEMORY_USERS\<close> returns the new record and stores it in place of the old one, whose
  email and hash are gone; no other key changes, no exception is raised, and the result is
  what the same call returns when the name is not yet a key. The hashing itself has
  returned.
\<close>

theorem create_user_overwrites:
  assumes "IN_MEMORY_USERS mem name = Some old"
      and "hash_password bc salt password = Inr pwhash"
  shows "create_user bc salt name mail password None mem
           = Inr (UserDict \<lparr>data_email = mail, data_password_hash = pwhash\<rparr>, None,
                  mem\<lparr>IN_MEMORY_USERS := (IN_MEMORY_USERS mem)
                         (name \<mapsto> \<lparr>data_email = mail, data_password_hash = pwhash\<rparr>)\<rparr>)
       \<and> create_user bc salt name mail password None mem
           = create_user bc salt name mail password None
               (mem\<lparr>IN_MEMORY_USERS := (IN_MEMORY_USERS mem)(name := None)\<rparr>)"
  using assms by (simp add: create_user_def Let_def)

theorem create_user_overwrites_witness:
  "create_user \<lparr>hashpw = \<lambda>p s. Inr (s @ p), checkpw = \<lambda>p h. Inr (h = ''$2b$'' @ p)\<rparr>
     ''$2b$'' ''alice'' ''new@example.com'' ''pw2'' None
     \<lparr>IN_MEMORY_USERS = [''alice'' \<mapsto> \<lparr>data_email = ''a@example.com'',
                                          data_password_hash = ''$2b$secret''\<rparr>],
      IN_MEMORY_SESSIONS = Map.empty\<rparr>
   = Inr (UserDict \<lparr>data_email = ''new@example.com'', data_password_hash = ''$2b$pw2''\<rparr>, None,
          \<lparr>IN_MEMORY_USERS = [''alice'' \<mapsto> \<lparr>data_email = ''new@example.com'',
                                               data_password_hash = ''$2b$pw2''\<rparr>],
           IN_MEMORY_SESSIONS = Map.empty\<rparr>)"
proof -
  let ?bc = "\<lparr>hashpw = \<lambda>p s. Inr (s @ p), checkpw = \<lambda>p h. Inr (h = ''$2b$'' @ p)\<rparr>"
  let ?old = "\<lparr>data_email = ''a@example.com'', data_password_hash = ''$2b$secret''\<rparr>"
  let ?m = "\<lparr>IN_MEMORY_USERS = [''alice'' \<mapsto> ?old], IN_MEMORY_SESSIONS = Map.empty\<rparr>"
  have a: "IN_MEMORY_USERS ?m ''alice'' = Some ?old"
    by simp
  have b: "hash_password ?bc ''$2b$'' ''pw2'' = Inr ''$2b$pw2''"
    by (simp add: hash_password_def)
  from create_user_overwrites [OF a b, of "''new@example.com''"] show ?thesis
    by simp
qed

section \<open>The connector\<close>

lemma get_hana_connection_connect_with:
  "get_hana_connection py_int ConnectionContext environ =
     connect_with py_int ConnectionContext (environ ''HANA_ADDRESS'') (environ ''HANA_PORT'')
       (environ ''HANA_USER'') (environ ''HANA_PASSWORD'')"
  unfolding get_hana_connection_def connect_with_def Let_def ..

lemma connect_with_missing:
  "address = None \<or> port = None \<or> user = None \<or> password = None
     \<Longrightarrow> connect_with py_int ConnectionContext address port user password = None"
  by (auto simp: connect_with_def truthy_def)

lemma connect_with_bad_port:
  "port = Some p \<Longrightarrow> py_int p = None
     \<Longrightarrow> connect_with py_int ConnectionContext address port user password = None"
  by (auto simp: connect_with_def try_connect_def truthy_def split: option.splits)

lemma connect_with_raises:
  "py_int p = Some n \<Longrightarrow> ConnectionContext a n u w = Inl e
     \<Longrightarrow> connect_with py_int ConnectionContext (Some a) (Some p) (Some u) (Some w) = None"
  by (auto simp: connect_with_def try_connect_def split: exn.splits)

lemma connect_with_Some_iff:
  "connect_with py_int ConnectionContext address port user password = Some c
     \<longleftrightarrow> (\<exists>a p u w n.
            address = Some a \<and> a \<noteq> [] \<and> port = Some p \<and> p \<noteq> []
          \<and> user = Some u \<and> u \<noteq> [] \<and> password = Some w \<and> w \<noteq> []
          \<and> py_int p = Some n \<and> ConnectionContext a n u w = Inr c)"
  by (cases address; cases port; cases user; cases password)
     (auto simp: connect_with_def try_connect_def truthy_def
           split: option.splits sum.splits exn.splits)

text \<open>
  C7. \<open>get_hana_connection\<close> returns \<open>None\<close> when any of the four variables is not set,
  when \<open>int\<close> rejects the port, and when \<open>ConnectionContext\<close> raises; it returns a handle
  exactly when the four are set and not empty, the port parses, and \<open>ConnectionContext\<close>
  returns that handle. It has no raising outcome.
\<close>

theorem get_hana_connection_result:
  "(environ ''HANA_ADDRESS'' = None \<or> environ ''HANA_PORT'' = None
      \<or> environ ''HANA_USER'' = None \<or> environ ''HANA_PASSWORD'' = None
      \<longrightarrow> get_hana_connection py_int ConnectionContext environ = None)
   \<and> (environ ''HANA_PORT'' = Some p \<and> py_int p = None
      \<longrightarrow> get_hana_connection py_int ConnectionContext environ = None)
   \<and> (environ ''HANA_ADDRESS'' = Some a \<and> environ ''HANA_PORT'' = Some p
      \<and> environ ''HANA_USER'' = Some u \<and> environ ''HANA_PASSWORD'' = Some w
      \<and> py_int p = Some n \<and> ConnectionContext a n u w = Inl e
      \<longrightarrow> get_hana_connection py_int ConnectionContext environ = None)
   \<and> (get_hana_connection py_int ConnectionContext environ = Some c
      \<longleftrightarrow> (\<exists>a p u w n.
             environ ''HANA_ADDRESS'' = Some a \<and> a \<noteq> [] \<and> environ ''HANA_PORT'' = Some p \<and> p \<noteq> []
           \<and> environ ''HANA_USER'' = Some u \<and> u \<noteq> [] \<and> environ ''HANA_PASSWORD'' = Some w \<and> w \<noteq> []
           \<and> py_int p = Some n \<and> ConnectionContext a n u w = Inr c))"
proof (intro conjI impI)
  assume "environ ''HANA_ADDRESS'' = None \<or> environ ''HANA_PORT'' = None
      \<or> environ ''HANA_USER'' = None \<or> environ ''HANA_PASSWORD'' = None"
  then show "get_hana_connection py_int ConnectionContext environ = None"
    unfolding get_hana_connection_connect_with by (rule connect_with_missing)
next
  assume "environ ''HANA_PORT'' = Some p \<and> py_int p = None"
  then show "get_hana_connection py_int ConnectionContext environ = None"
    unfolding get_hana_connection_connect_with by (blast intro: connect_with_bad_port)
next
  assume h: "environ ''HANA_ADDRESS'' = Some a \<and> environ ''HANA_PORT'' = Some p
      \<and> environ ''HANA_USER'' = Some u \<and> environ ''HANA_PASSWORD'' = Some w
      \<and> py_int p = Some n \<and> ConnectionContext a n u w = Inl e"
  then have "connect_with py_int ConnectionContext (Some a) (Some p) (Some u) (Some w) = None"
    by (blast intro: connect_with_raises)
  with h show "get_hana_connection py_int ConnectionContext environ = None"
    unfolding get_hana_connection_connect_with by metis
next
  show "get_hana_connection py_int ConnectionContext environ = Some c
      \<longleftrightarrow> (\<exists>a p u w n.
             environ ''HANA_ADDRESS'' = Some a \<and> a \<noteq> [] \<and> environ ''HANA_PORT'' = Some p \<and> p \<noteq> []
           \<and> environ ''HANA_USER'' = Some u \<and> u \<noteq> [] \<and> environ ''HANA_PASSWORD'' = Some w \<and> w \<noteq> []
           \<and> py_int p = Some n \<and> ConnectionContext a n u w = Inr c)"
    unfolding get_hana_connection_connect_with by (rule connect_with_Some_iff)
qed

theorem get_hana_connection_result_witness:
  "get_hana_connection (\<lambda>s. if s = ''30015'' then Some 30015 else None)
     (\<lambda>a n u w. Inr \<lparr>conn_address = a, conn_port = n, conn_user = u, conn_password = w,
                      close_error = None\<rparr>)
     [''HANA_ADDRESS'' \<mapsto> ''testhost'', ''HANA_PORT'' \<mapsto> ''30015'',
      ''HANA_USER'' \<mapsto> ''testuser'', ''HANA_PASSWORD'' \<mapsto> ''testpassword'']
     = Some \<lparr>conn_address = ''testhost'', conn_port = 30015, conn_user = ''testuser'',
             conn_password = ''testpassword'', close_error = None\<rparr>
   \<and> get_hana_connection (\<lambda>s. if s = ''30015'' then Some 30015 else None)
     (\<lambda>a n u w. Inr \<lparr>conn_address = a, conn_port = n, conn_user = u, conn_password = w,
                      close_error = None\<rparr>)
     [''HANA_ADDRESS'' \<mapsto> ''onlyone''] = None
   \<and> get_hana_connection (\<lambda>s. if s = ''30015'' then Some 30015 else None)
     (\<lambda>a n u w. Inr \<lparr>conn_address = a, conn_port = n, conn_user = u, conn_password = w,
                      close_error = None\<rparr>)
     [''HANA_ADDRESS'' \<mapsto> ''testhost'', ''HANA_PORT'' \<mapsto> ''notanint'',
      ''HANA_USER'' \<mapsto> ''testuser'', ''HANA_PASSWORD'' \<mapsto> ''testpassword''] = None
   \<and> get_hana_connection (\<lambda>s. if s = ''30015'' then Some 30015 else None)
     (\<lambda>a n u w. Inl (Exception ''Test connection error''))
     [''HANA_ADDRESS'' \<mapsto> ''testhost'', ''HANA_PORT'' \<mapsto> ''30015'',
      ''HANA_USER'' \<mapsto> ''testuser'', ''HANA_PASSWORD'' \<mapsto> ''testpassword''] = None"
proof -
  let ?int = "\<lambda>s. if s = ''30015'' then Some (30015 :: int) else None"
  let ?ok = "\<lambda>a n u w. Inr \<lparr>conn_address = a, conn_port = n, conn_user = u, conn_password = w,
                      close_error = None\<rparr> :: exn + connection"
  let ?fail = "\<lambda>(a :: string) (n :: int) (u :: string) (w :: string).
                 Inl (Exception ''Test connection error'') :: exn + connection"
  let ?env = "[''HANA_ADDRESS'' \<mapsto> ''testhost'', ''HANA_PORT'' \<mapsto> ''30015'',
      ''HANA_USER'' \<mapsto> ''testuser'', ''HANA_PASSWORD'' \<mapsto> ''testpassword'']"
  let ?bad = "[''HANA_ADDRESS'' \<mapsto> ''testhost'', ''HANA_PORT'' \<mapsto> ''notanint'',
      ''HANA_USER'' \<mapsto> ''testuser'', ''HANA_PASSWORD'' \<mapsto> ''testpassword'']"
  let ?c = "\<lparr>conn_address = ''testhost'', conn_port = 30015, conn_user = ''testuser'',
             conn_password = ''testpassword'', close_error = None\<rparr>"
  have 1: "get_hana_connection ?int ?ok ?env = Some ?c"
    using get_hana_connection_result [where py_int = ?int and ConnectionContext = ?ok
        and environ = ?env and c = ?c and p = "''30015''" and a = "''''" and u = "''''"
        and w = "''''" and n = 0 and e = "Exception []"]
    by simp
  have 2: "get_hana_connection ?int ?ok [''HANA_ADDRESS'' \<mapsto> ''onlyone''] = None"
    using get_hana_connection_result [where py_int = ?int and ConnectionContext = ?ok
        and environ = "[''HANA_ADDRESS'' \<mapsto> ''onlyone'']" and c = ?c and p = "''30015''"
        and a = "''''" and u = "''''" and w = "''''" and n = 0 and e = "Exception []"]
    by simp
  have 3: "get_hana_connection ?int ?ok ?bad = None"
    using get_hana_connection_result [where py_int = ?int and ConnectionContext = ?ok
        and environ = ?bad and c = ?c and p = "''notanint''"
        and a = "''''" and u = "''''" and w = "''''" and n = 0 and e = "Exception []"]
    by simp
  have 4: "get_hana_connection ?int ?fail ?env = None"
    using get_hana_connection_result [where py_int = ?int and ConnectionContext = ?fail
        and environ = ?env and c = ?c and p = "''30015''" and a = "''testhost''"
        and u = "''testuser''" and w = "''testpassword''" and n = 30015
        and e = "Exception ''Test connection error''"]
    by simp
  from 1 2 3 4 show ?thesis by blast
qed

text \<open>
  C9. \<open>get_sales_data\<close> returns the empty table for an absent handle; for any handle it
  returns the same table, of five rows under the columns \<open>OrderID\<close>, \<open>Product\<close>,
  \<open>Quantity\<close> and \<open>Price\<close>, whatever the handle holds.
\<close>

theorem get_sales_data_mock:
  "get_sales_data None = []
   \<and> df_empty (get_sales_data None)
   \<and> get_sales_data (Some cc) =
       [(''OrderID'', [IntCell 1, IntCell 2, IntCell 3, IntCell 4, IntCell 5]),
        (''Product'', [StrCell ''Laptop'', StrCell ''Mouse'', StrCell ''Keyboard'',
                       StrCell ''Monitor'', StrCell ''Webcam'']),
        (''Quantity'', [IntCell 1, IntCell 2, IntCell 1, IntCell 1, IntCell 3]),
        (''Price'', [IntCell 1200, IntCell 25, IntCell 75, IntCell 300, IntCell 50])]
   \<and> df_rows (get_sales_data (Some cc)) = 5
   \<and> list_all (\<lambda>column. length (snd column) = 5) (get_sales_data (Some cc))
   \<and> df_columns (get_sales_data (Some cc)) = [''OrderID'', ''Product'', ''Quantity'', ''Price'']
   \<and> \<not> df_empty (get_sales_data (Some cc))
   \<and> get_sales_data (Some cc) = get_sales_data (Some cc')"
  by (simp add: get_sales_data_def df_empty_def df_rows_def df_columns_def)

theorem get_sales_data_mock_witness:
  "df_rows (get_sales_data (Some \<lparr>conn_address = ''testhost'', conn_port = 30015,
        conn_user = ''testuser'', conn_password = ''testpassword'', close_error = None\<rparr>)) = 5
   \<and> get_sales_data (Some \<lparr>conn_address = ''testhost'', conn_port = 30015,
        conn_user = ''testuser'', conn_password = ''testpassword'', close_error = None\<rparr>)
     = get_sales_data (Some \<lparr>conn_address = ''other'', conn_port = 1,
        conn_user = ''u'', conn_password = ''p'', close_error = Some ''boom''\<rparr>)"
  using get_sales_data_mock [of
      "\<lparr>conn_address = ''testhost'', conn_port = 30015,
        conn_user = ''testuser'', conn_password = ''testpassword'', close_error = None\<rparr>"
      "\<lparr>conn_address = ''other'', conn_port = 1,
        conn_user = ''u'', conn_password = ''p'', close_error = Some ''boom''\<rparr>"]
  by blast

section \<open>The dashboard builder\<close>

lemma dashboard_no_user:
  "create_sales_dashboard hana_connection fetch None
     = (Inr (Pane (Markdown ''## Error: No user context provided.'')), [])"
  by (simp add: create_sales_dashboard_def)

lemma dashboard_no_connection:
  "create_sales_dashboard None fetch (Some u)
     = (Inr (Column [Markdown (''# Sales Dashboard for '' @ mock_username u),
               Alert ''Error: Could not connect to SAP HANA. Please check connection details or environment variables.'' ''danger'',
               DataFramePane [] ''Sales Data'' 800 300] ''stretch_both''),
        [Call_get_hana_connection])"
  by (simp add: create_sales_dashboard_def call_get_hana_connection_def pn_pane_DataFrame_def
        Let_def)

lemma dashboard_connected:
  "create_sales_dashboard (Some conn) fetch (Some u)
     = (case fetch (Some conn) of
          Inl e \<Rightarrow> (Inl e, [Call_get_hana_connection, Call_get_sales_data conn])
        | Inr sales_df \<Rightarrow>
            if df_empty sales_df
            then (Inr (Column ([Markdown (''# Sales Dashboard for '' @ mock_username u),
                                Alert ''Successfully connected to SAP HANA.'' ''success'',
                                Alert ''No sales data available or an error occurred during fetching.'' ''warning'']
                               @ close_notice conn
                               @ [DataFramePane [] ''Sales Data'' 800 300]) ''stretch_both''),
                  [Call_get_hana_connection, Call_get_sales_data conn, Call_close conn])
            else (Inl (TypeError ''show_index''),
                  [Call_get_hana_connection, Call_get_sales_data conn]))"
proof (cases "fetch (Some conn)")
  case (Inl e)
  then show ?thesis
    by (simp add: create_sales_dashboard_def call_get_hana_connection_def
          call_get_sales_data_def Let_def)
next
  case (Inr sales_df)
  show ?thesis
  proof (cases "df_empty sales_df")
    case True
    with Inr show ?thesis
      by (cases "close_error conn")
         (simp_all add: create_sales_dashboard_def call_get_hana_connection_def
            call_get_sales_data_def call_close_def pn_pane_DataFrame_def close_notice_def Let_def)
  next
    case False
    with Inr show ?thesis
      by (simp add: create_sales_dashboard_def call_get_hana_connection_def
            call_get_sales_data_def pn_pane_DataFrame_def Let_def)
  qed
qed

text \<open>
  The paths on which the builder returns a view: no user, no connection, and a connection
  whose fetched table is empty. On the last one \<open>close()\<close> is called, after the fetch and
  as the last call, and the notice of a failed \<open>close()\<close> stands before the table pane.
\<close>

lemma dashboard_empty_table:
  assumes "fetch (Some conn) = Inr sales_df" and "df_empty sales_df"
  shows "create_sales_dashboard (Some conn) fetch (Some u)
     = (Inr (Column ([Markdown (''# Sales Dashboard for '' @ mock_username u),
                      Alert ''Successfully connected to SAP HANA.'' ''success'',
                      Alert ''No sales data available or an error occurred during fetching.'' ''warning'']
                     @ close_notice conn
                     @ [DataFramePane [] ''Sales Data'' 800 300]) ''stretch_both''),
        [Call_get_hana_connection, Call_get_sales_data conn, Call_close conn])"
  unfolding dashboard_connected using assms by simp

text \<open>
  The paths on which no view is returned: the fetch raises, or the fetched table is not
  empty and the table pane is built with \<open>show_index\<close>. Both come before the \<open>try\<close> around
  \<open>close()\<close>, so the handle is left open.
\<close>

lemma dashboard_fetch_raises:
  assumes "fetch (Some conn) = Inl e"
  shows "create_sales_dashboard (Some conn) fetch (Some u)
     = (Inl e, [Call_get_hana_connection, Call_get_sales_data conn])"
  unfolding dashboard_connected using assms by simp

lemma dashboard_nonempty_table:
  assumes "fetch (Some conn) = Inr sales_df" and "\<not> df_empty sales_df"
  shows "create_sales_dashboard (Some conn) fetch (Some u)
     = (Inl (TypeError ''show_index''), [Call_get_hana_connection, Call_get_sales_data conn])"
  unfolding dashboard_connected using assms by simp

text \<open>
  With the connector's own \<open>get_sales_data\<close> the fetched table is never empty: whenever the
  connection succeeds, the module-level build ends in the \<open>TypeError\<close>.
\<close>

lemma dashboard_view_connected:
  assumes "get_hana_connection py_int ConnectionContext environ = Some conn"
  shows "dashboard_view py_int ConnectionContext environ
     = (Inl (TypeError ''show_index''), [Call_get_hana_connection, Call_get_sales_data conn])"
proof -
  have "\<not> df_empty (get_sales_data (Some conn))"
    by (simp add: get_sales_data_def df_empty_def)
  then show ?thesis
    unfolding dashboard_view_def current_user_def assms
    by (simp add: dashboard_nonempty_table)
qed

text \<open>
  C6. For the user \<open>testuser\<close>, a handle, and a fetch that returns the connector's mock
  table (which is not empty), \<open>create_sales_dashboard\<close> returns no view: building the table
  pane with \<open>show_index=False\<close> raises \<open>TypeError\<close>, after the connection and the fetch. The
  table is not shown.
\<close>

theorem create_sales_dashboard_nonempty_table_raises:
  "create_sales_dashboard
     (Some \<lparr>conn_address = ''testhost'', conn_port = 30015, conn_user = ''testuser'',
            conn_password = ''testpassword'', close_error = None\<rparr>)
     (\<lambda>cc. Inr (get_sales_data cc)) (Some (MockUser ''testuser''))
   = (Inl (TypeError ''show_index''),
      [Call_get_hana_connection,
       Call_get_sales_data \<lparr>conn_address = ''testhost'', conn_port = 30015,
          conn_user = ''testuser'', conn_password = ''testpassword'', close_error = None\<rparr>])"
proof -
  let ?c = "\<lparr>conn_address = ''testhost'', conn_port = 30015, conn_user = ''testuser'',
            conn_password = ''testpassword'', close_error = None\<rparr>"
  have "\<not> df_empty (get_sales_data (Some ?c))"
    by (simp add: get_sales_data_def df_empty_def)
  then show ?thesis
    by (simp add: dashboard_nonempty_table)
qed

text \<open>
  C8. For the user \<open>testuser\<close>, a handle whose \<open>close()\<close> would raise, and a fetch that
  returns a table of two rows, the builder never calls \<open>close()\<close>: the \<open>TypeError\<close> of the
  table pane leaves the function before the \<open>try\<close>, so the handle is not released, no
  warning is added and no view is returned.
\<close>

theorem close_not_reached:
  "fst (create_sales_dashboard
     (Some \<lparr>conn_address = ''testhost'', conn_port = 30015, conn_user = ''testuser'',
            conn_password = ''testpassword'',
            close_error = Some ''Failed to close connection''\<rparr>)
     (\<lambda>cc. Inr [(''Sales'', [IntCell 100, IntCell 200]),
                 (''Product'', [StrCell ''A'', StrCell ''B''])])
     (Some (MockUser ''testuser'')))
   = Inl (TypeError ''show_index'')
   \<and> Call_close \<lparr>conn_address = ''testhost'', conn_port = 30015, conn_user = ''testuser'',
            conn_password = ''testpassword'',
            close_error = Some ''Failed to close connection''\<rparr>
     \<notin> set (snd (create_sales_dashboard
         (Some \<lparr>conn_address = ''testhost'', conn_port = 30015, conn_user = ''testuser'',
                conn_password = ''testpassword'',
                close_error = Some ''Failed to close connection''\<rparr>)
         (\<lambda>cc. Inr [(''Sales'', [IntCell 100, IntCell 200]),
                     (''Product'', [StrCell ''A'', StrCell ''B''])])
         (Some (MockUser ''testuser''))))"
proof -
  let ?c = "\<lparr>conn_address = ''testhost'', conn_port = 30015, conn_user = ''testuser'',
            conn_password = ''testpassword'',
            close_error = Some ''Failed to close connection''\<rparr>"
  let ?df = "[(''Sales'', [IntCell 100, IntCell 200]), (''Product'', [StrCell ''A'', StrCell ''B''])]"
  have "\<not> df_empty ?df"
    by (simp add: df_empty_def)
  then have "create_sales_dashboard (Some ?c) (\<lambda>cc. Inr ?df) (Some (MockUser ''testuser''))
     = (Inl (TypeError ''show_index''), [Call_get_hana_connection, Call_get_sales_data ?c])"
    by (simp add: dashboard_nonempty_table)
  then show ?thesis
    by simp
qed

end
